theory Spec2Isabelle
  imports Main
begin

section \<open>The machine scope of the IONOS Cloud infrastructure provider\<close>

text \<open>
  A shallow embedding of \<^verbatim>\<open>scope/machine.go\<close>: the scope that a reconciliation of one
  \<^verbatim>\<open>IonosCloudMachine\<close> works on. Pointers that may be nil are options, Go's
  \<^verbatim>\<open>(value, error)\<close> results are sums with the error on the left, interfaces are
  records of the methods this file calls, and the effects on the resource store are
  explicit: a function that talks to the store returns what it asked for, or takes the
  store's state and returns the new one.
\<close>

subsection \<open>Errors\<close>

text \<open>
  Go's \<^verbatim>\<open>error\<close> values of this file: \<^verbatim>\<open>errors.New(msg)\<close>, the wrapping
  \<^verbatim>\<open>fmt.Errorf("prefix: %w", err)\<close>, and the errors that the resource store answers with
  (a status error with its reason, such as NotFound or Conflict).
\<close>

datatype error =
    New string
  | Errorf string error
  | StatusError string

subsection \<open>The records\<close>

text \<open>
  \<^verbatim>\<open>metav1.Time\<close> is a point in time; seconds as an integer. \<^verbatim>\<open>t.Before(u)\<close> on two
  non-nil times is the strict order.
\<close>

type_synonym Time = int

definition Before :: "Time \<Rightarrow> Time \<Rightarrow> bool" where
  "Before t u = (t < u)"

text \<open>
  Conditions (\<^verbatim>\<open>clusterv1.Condition\<close>): a type and a status. The two condition types this
  file names are \<^verbatim>\<open>clusterv1.ReadyCondition\<close> and \<^verbatim>\<open>infrav1.MachineProvisionedCondition\<close>.
\<close>

type_synonym ConditionType = string

definition ReadyCondition :: ConditionType where
  "ReadyCondition = ''Ready''"

definition MachineProvisionedCondition :: ConditionType where
  "MachineProvisionedCondition = ''MachineProvisioned''"

datatype ConditionStatus = ConditionTrue | ConditionFalse | ConditionUnknown

record Condition =
  Type :: ConditionType
  Status :: ConditionStatus

text \<open>
  \<^verbatim>\<open>infrav1.IonosCloudMachine\<close>, with the fields this file reads or writes. A nil
  pointer (\<^verbatim>\<open>*string\<close>) is \<open>None\<close>.
\<close>

record IonosCloudMachineSpec =
  ProviderID :: "string option"
  DatacenterID :: string

record IonosCloudMachineStatus =
  FailureReason :: "string option"
  FailureMessage :: "string option"
  Conditions :: "Condition list"

record IonosCloudMachine =
  Name :: string
  Namespace :: string
  CreationTimestamp :: Time
  Spec :: IonosCloudMachineSpec
  Status :: IonosCloudMachineStatus

text \<open>\<^verbatim>\<open>clusterv1.Machine\<close>: only \<^verbatim>\<open>Spec.Bootstrap.DataSecretName\<close> is read.\<close>

record clusterv1_Machine =
  DataSecretName :: "string option"

record Secret =
  SecretName :: string
  SecretNamespace :: string
  Data :: string

record ObjectKey =
  KeyNamespace :: string
  KeyName :: string

text \<open>
  \<^verbatim>\<open>client.Client\<close> is an interface; of its methods this file calls \<^verbatim>\<open>Get\<close> on a
  secret. The answer is the store's: a secret or an error.
\<close>

record Client =
  Get :: "ObjectKey \<Rightarrow> error + Secret"

type_synonym MatchingLabels = "(string \<times> string) list"

text \<open>
  The cluster scope (\<^verbatim>\<open>*Cluster\<close>) is used through \<^verbatim>\<open>ListMachines\<close> only, which is
  defined in another file of the package: its answer is taken as it comes, a list of
  machines in the store's order or an error.
\<close>

record Cluster =
  ListMachinesOf :: "MatchingLabels \<Rightarrow> error + IonosCloudMachine list"

text \<open>
  \<^verbatim>\<open>patch.Helper\<close> holds the copy of the object taken when the helper was made.
\<close>

record Helper =
  before :: IonosCloudMachine

record MachineParams =
  Client :: "Client option"
  Machine :: "clusterv1_Machine option"
  ClusterScope :: "Cluster option"
  IonosMachine :: "IonosCloudMachine option"

record Machine =
  client :: Client
  patchHelper :: Helper
  Machine :: clusterv1_Machine
  IonosMachine :: IonosCloudMachine
  ClusterScope :: Cluster

subsection \<open>Sibling machines\<close>

definition ListMachines :: "Machine \<Rightarrow> MatchingLabels \<Rightarrow> error + IonosCloudMachine list" where
  "ListMachines m machineLabels = ListMachinesOf (ClusterScope m) machineLabels"

text \<open>
  \<^verbatim>\<open>CountMachines\<close> returns \<^verbatim>\<open>len(machines), err\<close>: on an error the list is nil and the
  count is 0.
\<close>

definition CountMachines :: "Machine \<Rightarrow> MatchingLabels \<Rightarrow> nat \<times> error option" where
  "CountMachines m machineLabels =
     (case ListMachines m machineLabels of
        Inl err \<Rightarrow> (0, Some err)
      | Inr machines \<Rightarrow> (length machines, None))"

text \<open>
  The loop of \<^verbatim>\<open>FindLatestMachine\<close>: \<open>ownName\<close> is \<^verbatim>\<open>m.IonosMachine.Name\<close>,
  \<open>latestMachine\<close> the running candidate.
\<close>

fun scan :: "string \<Rightarrow> IonosCloudMachine \<Rightarrow> IonosCloudMachine list \<Rightarrow> IonosCloudMachine" where
  "scan ownName latestMachine [] = latestMachine"
| "scan ownName latestMachine (machine # rest) =
     scan ownName
       (if \<not> Before (CreationTimestamp machine) (CreationTimestamp latestMachine)
           \<and> Name machine \<noteq> ownName
        then machine else latestMachine)
       rest"

definition FindLatestMachine ::
  "Machine \<Rightarrow> MatchingLabels \<Rightarrow> error + IonosCloudMachine option" where
  "FindLatestMachine m matchLabels =
     (case ListMachinesOf (ClusterScope m) matchLabels of
        Inl err \<Rightarrow> Inl err
      | Inr machines \<Rightarrow>
          if length machines \<le> 1 then Inr None
          else
            let latestMachine = scan (Name (IonosMachine m)) (machines ! 0) machines
            in if Name latestMachine = Name (IonosMachine m) then Inr None
               else Inr (Some latestMachine))"

subsection \<open>Failure check and identity accessors\<close>

definition HasFailed :: "Machine \<Rightarrow> bool" where
  "HasFailed m =
     (let status = Status (IonosMachine m)
      in FailureReason status \<noteq> None \<or> FailureMessage status \<noteq> None)"

definition DatacenterID_of :: "Machine \<Rightarrow> string" where
  "DatacenterID_of m = DatacenterID (Spec (IonosMachine m))"

definition SetProviderID :: "Machine \<Rightarrow> string \<Rightarrow> Machine" where
  "SetProviderID m ident =
     m\<lparr>IonosMachine := (IonosMachine m)\<lparr>Spec :=
          (Spec (IonosMachine m))\<lparr>ProviderID := Some (''ionos://'' @ ident)\<rparr>\<rparr>\<rparr>"

subsection \<open>The packages this file calls\<close>

text \<open>
  \<^verbatim>\<open>conditions.SetSummary\<close>, \<^verbatim>\<open>patch.NewHelper\<close>, the helper's \<^verbatim>\<open>Patch\<close> and
  \<^verbatim>\<open>retry.DefaultBackoff\<close> belong to other modules. The functions of this file take
  them as a parameter, so what is proved of \<^verbatim>\<open>NewMachine\<close>, \<^verbatim>\<open>PatchObject\<close> and
  \<^verbatim>\<open>Finalize\<close> holds whatever they do. \<open>'w\<close> is the state of the resource store that a
  patch acts on. \<^verbatim>\<open>SetSummary\<close> gets the condition types of \<^verbatim>\<open>conditions.WithConditions\<close>
  and returns the object with its summary set; \<^verbatim>\<open>Patch\<close> gets the helper, the object and
  the condition types of \<^verbatim>\<open>patch.WithOwnedConditions\<close>, and returns the error (or none) with
  the new state of the store. The copy that the helper holds stays as it is.
\<close>

text \<open>
  \<^verbatim>\<open>wait.Backoff\<close>, the retry policy: the first delay (in milliseconds), the factor by
  which the delay grows, and the number of steps. Its jitter and cap are left out.
\<close>

record Backoff =
  Duration :: nat
  Factor :: nat
  Steps :: nat

record 'w Library =
  SetSummary :: "ConditionType list \<Rightarrow> IonosCloudMachine \<Rightarrow> IonosCloudMachine"
  NewHelper :: "IonosCloudMachine \<Rightarrow> Client \<Rightarrow> error + Helper"
  Patch :: "Helper \<Rightarrow> IonosCloudMachine \<Rightarrow> ConditionType list \<Rightarrow> 'w \<Rightarrow> error option \<times> 'w"
  DefaultBackoff :: Backoff

text \<open>
  Modelled from the spec: \<^verbatim>\<open>ptr.Deref\<close> of \<^verbatim>\<open>internal/util/ptr\<close>, which is not among the
  sources: the value behind a pointer, or the given default when the pointer is nil.
\<close>

definition Deref :: "'a option \<Rightarrow> 'a \<Rightarrow> 'a" where
  "Deref p def = (case p of None \<Rightarrow> def | Some v \<Rightarrow> v)"

subsection \<open>Construction\<close>

definition NewMachine :: "'w Library \<Rightarrow> MachineParams \<Rightarrow> error + Machine" where
  "NewMachine lib params =
     (case MachineParams.Client params of
        None \<Rightarrow> Inl (New ''machine scope params lack a client'')
      | Some c \<Rightarrow>
     (case MachineParams.Machine params of
        None \<Rightarrow> Inl (New ''machine scope params lack a Cluster API machine'')
      | Some capiMachine \<Rightarrow>
     (case MachineParams.IonosMachine params of
        None \<Rightarrow> Inl (New ''machine scope params lack a IONOS Cloud machine'')
      | Some ionosMachine \<Rightarrow>
     (case MachineParams.ClusterScope params of
        None \<Rightarrow> Inl (New ''machine scope params need a IONOS Cloud cluster scope'')
      | Some clusterScope \<Rightarrow>
     (case NewHelper lib ionosMachine c of
        Inl err \<Rightarrow> Inl (Errorf ''failed to init patch helper: '' err)
      | Inr helper \<Rightarrow>
          Inr \<lparr>client = c, patchHelper = helper, Machine = capiMachine,
               IonosMachine = ionosMachine, ClusterScope = clusterScope\<rparr>)))))"

text \<open>
  The spec's error kind \<open>InvalidParams\<close>: the four errors of the nil checks.
\<close>

definition InvalidParams :: "error \<Rightarrow> bool" where
  "InvalidParams err =
     (err = New ''machine scope params lack a client''
      \<or> err = New ''machine scope params lack a Cluster API machine''
      \<or> err = New ''machine scope params lack a IONOS Cloud machine''
      \<or> err = New ''machine scope params need a IONOS Cloud cluster scope'')"

subsection \<open>Bootstrap data\<close>

text \<open>
  The result, and the keys of the lookups made in the store, in order. The log line
  written before the lookup is left out.
\<close>

definition GetBootstrapDataSecret :: "Machine \<Rightarrow> (error + Secret) \<times> ObjectKey list" where
  "GetBootstrapDataSecret m =
     (let name = Deref (DataSecretName (Machine m)) ''''
      in if name = '''' then (Inl (New ''machine has no bootstrap data yet''), [])
         else
           let key = \<lparr>KeyNamespace = Namespace (IonosMachine m), KeyName = name\<rparr>
           in (case Get (client m) key of
                 Inl err \<Rightarrow> (Inl err, [key])
               | Inr lookupSecret \<Rightarrow> (Inr lookupSecret, [key])))"

subsection \<open>Commit and finalize\<close>

text \<open>
  The arguments of \<^verbatim>\<open>conditions.WithConditions\<close> and of \<^verbatim>\<open>patch.WithOwnedConditions\<close>
  in \<^verbatim>\<open>PatchObject\<close>.
\<close>

definition summaryConditions :: "ConditionType list" where
  "summaryConditions = [MachineProvisionedCondition]"

definition ownedConditions :: "ConditionType list" where
  "ownedConditions = [ReadyCondition, MachineProvisionedCondition]"

text \<open>
  \<^verbatim>\<open>PatchObject\<close> sets the summary on the scope's \<^verbatim>\<open>IonosMachine\<close> (through the pointer,
  so the scope changes) and hands the object to the helper. The deadline of ten seconds
  on the patch is not modelled.
\<close>

definition PatchObject :: "'w Library \<Rightarrow> Machine \<times> 'w \<Rightarrow> error option \<times> (Machine \<times> 'w)" where
  "PatchObject lib s =
     (case s of (m, w) \<Rightarrow>
        let obj = SetSummary lib summaryConditions (IonosMachine m);
            m' = m\<lparr>IonosMachine := obj\<rparr>
        in (case Patch lib (patchHelper m') obj ownedConditions w of
              (err, w') \<Rightarrow> (err, (m', w'))))"

text \<open>
  Modelled from the spec: \<^verbatim>\<open>retry.OnError\<close> of \<^verbatim>\<open>k8s.io/client-go\<close>, which is not among
  the sources. The spec (4.8) has a retry loop with exponential backoff, bounded by the
  policy's steps, that retries an error when the predicate accepts it and surfaces the
  last error when the steps are used up. \<open>attempts n delay\<close> has \<open>n\<close> attempts left and
  sleeps \<open>delay\<close> before the next one; the delays slept are collected (the random jitter
  and the cap of a policy are left out). With no step at all nothing is attempted and
  there is no error to return.
\<close>

fun attempts ::
  "nat \<Rightarrow> nat \<Rightarrow> nat \<Rightarrow> (error \<Rightarrow> bool) \<Rightarrow> ('s \<Rightarrow> error option \<times> 's) \<Rightarrow> error option
     \<Rightarrow> 's \<Rightarrow> nat list \<Rightarrow> error option \<times> 's \<times> nat list" where
  "attempts 0 delay factor retriable fn lastErr s slept = (lastErr, s, slept)"
| "attempts (Suc n) delay factor retriable fn lastErr s slept =
     (case fn s of
        (None, s') \<Rightarrow> (None, s', slept)
      | (Some err, s') \<Rightarrow>
          if retriable err
          then (if n = 0 then (Some err, s', slept)
                else attempts n (delay * factor) factor retriable fn (Some err) s' (slept @ [delay]))
          else (Some err, s', slept))"

definition OnError ::
  "Backoff \<Rightarrow> (error \<Rightarrow> bool) \<Rightarrow> ('s \<Rightarrow> error option \<times> 's) \<Rightarrow> 's
     \<Rightarrow> error option \<times> 's \<times> nat list" where
  "OnError backoff retriable fn s =
     attempts (Steps backoff) (Duration backoff) (Factor backoff) retriable fn None s []"

definition shouldRetry :: "error \<Rightarrow> bool" where
  "shouldRetry err = True"

definition Finalize ::
  "'w Library \<Rightarrow> Machine \<times> 'w \<Rightarrow> error option \<times> (Machine \<times> 'w) \<times> nat list" where
  "Finalize lib s = OnError (DefaultBackoff lib) shouldRetry (PatchObject lib) s"

text \<open>
  An operation that is called again and again, each time on the state the call before
  left: the state after the first \<open>i\<close> calls, and the outcome of call number \<open>i\<close>
  (the first call is number 0).
\<close>

fun afterCalls :: "('s \<Rightarrow> error option \<times> 's) \<Rightarrow> 's \<Rightarrow> nat \<Rightarrow> 's" where
  "afterCalls fn s 0 = s"
| "afterCalls fn s (Suc i) = afterCalls fn (snd (fn s)) i"

definition outcome :: "('s \<Rightarrow> error option \<times> 's) \<Rightarrow> 's \<Rightarrow> nat \<Rightarrow> error option" where
  "outcome fn s i = fst (fn (afterCalls fn s i))"

definition delays :: "Backoff \<Rightarrow> nat \<Rightarrow> nat list" where
  "delays backoff k = map (\<lambda>i. Duration backoff * Factor backoff ^ i) [0..<k]"

definition NoBootstrapData :: error where
  "NoBootstrapData = New ''machine has no bootstrap data yet''"

subsection \<open>A model of the packages\<close>

text \<open>
  Modelled from the spec: \<^verbatim>\<open>conditions.SetSummary\<close> of \<^verbatim>\<open>sigs.k8s.io/cluster-api\<close>, which
  is not among the sources. The spec has a Ready summary that is derived from a fixed
  subset of the other conditions. Here the summary is False when a condition of the
  subset is False, else Unknown when one is Unknown, else True; it replaces the Ready
  condition of the record, or is added to it. A record with no condition of the subset is
  left as it is.
\<close>

definition summaryOf :: "ConditionType list \<Rightarrow> Condition list \<Rightarrow> Condition option" where
  "summaryOf types conds =
     (let inScope = filter (\<lambda>c. Type c \<noteq> ReadyCondition \<and> Type c \<in> set types) conds
      in if inScope = [] then None
         else Some \<lparr>Type = ReadyCondition,
                    Condition.Status =
                      (if list_ex (\<lambda>c. Condition.Status c = ConditionFalse) inScope then ConditionFalse
                       else if list_ex (\<lambda>c. Condition.Status c = ConditionUnknown) inScope
                         then ConditionUnknown
                       else ConditionTrue)\<rparr>)"

definition setCondition :: "Condition \<Rightarrow> Condition list \<Rightarrow> Condition list" where
  "setCondition c conds =
     (if list_ex (\<lambda>x. Type x = Type c) conds
      then map (\<lambda>x. if Type x = Type c then c else x) conds
      else conds @ [c])"

definition modelSetSummary :: "ConditionType list \<Rightarrow> IonosCloudMachine \<Rightarrow> IonosCloudMachine" where
  "modelSetSummary types obj =
     (case summaryOf types (Conditions (Status obj)) of
        None \<Rightarrow> obj
      | Some c \<Rightarrow>
          obj\<lparr>Status := (Status obj)\<lparr>Conditions := setCondition c (Conditions (Status obj))\<rparr>\<rparr>)"

text \<open>
  Modelled from the spec: \<^verbatim>\<open>patch.Helper\<close> of \<^verbatim>\<open>sigs.k8s.io/cluster-api\<close> and the resource
  store behind it, which are not among the sources. The spec has a helper that keeps a
  snapshot of the object from the construction of the scope, never changed afterwards,
  and a commit that computes the diff between the snapshot and the current record, spec
  and status as two separate sub-patches, applies it to the store and returns the
  store's outcome. A sub-patch carries the new value of its part when the part differs
  from the snapshot's. The store keeps its copy of the object, the answers it will give
  to the coming requests (an error such as a conflict rejects the request; with no answer
  left the request is accepted) and the requests it has received. A diff with no
  sub-patch is not sent.
\<close>

record Diff =
  specPatch :: "IonosCloudMachineSpec option"
  statusPatch :: "IonosCloudMachineStatus option"

definition diff :: "IonosCloudMachine \<Rightarrow> IonosCloudMachine \<Rightarrow> Diff" where
  "diff old new =
     \<lparr>specPatch = (if Spec old = Spec new then None else Some (Spec new)),
      statusPatch = (if Status old = Status new then None else Some (Status new))\<rparr>"

definition emptyDiff :: "Diff \<Rightarrow> bool" where
  "emptyDiff d = (specPatch d = None \<and> statusPatch d = None)"

definition applyDiff :: "Diff \<Rightarrow> IonosCloudMachine \<Rightarrow> IonosCloudMachine" where
  "applyDiff d obj =
     obj\<lparr>Spec := (case specPatch d of None \<Rightarrow> Spec obj | Some sp \<Rightarrow> sp),
         Status := (case statusPatch d of None \<Rightarrow> Status obj | Some st \<Rightarrow> st)\<rparr>"

record Store =
  stored :: IonosCloudMachine
  answers :: "error option list"
  requests :: "Diff list"

definition modelNewHelper :: "IonosCloudMachine \<Rightarrow> Client \<Rightarrow> error + Helper" where
  "modelNewHelper obj c = Inr \<lparr>before = obj\<rparr>"

definition modelPatch ::
  "Helper \<Rightarrow> IonosCloudMachine \<Rightarrow> ConditionType list \<Rightarrow> Store \<Rightarrow> error option \<times> Store" where
  "modelPatch helper obj owned st =
     (let d = diff (before helper) obj
      in if emptyDiff d then (None, st)
         else
           (case answers st of
              Some err # rest \<Rightarrow>
                (Some err, st\<lparr>answers := rest, requests := requests st @ [d]\<rparr>)
            | None # rest \<Rightarrow>
                (None, st\<lparr>stored := applyDiff d (stored st), answers := rest,
                           requests := requests st @ [d]\<rparr>)
            | [] \<Rightarrow>
                (None, st\<lparr>stored := applyDiff d (stored st),
                           requests := requests st @ [d]\<rparr>)))"

text \<open>
  Modelled from the spec: \<^verbatim>\<open>retry.DefaultBackoff\<close> of \<^verbatim>\<open>k8s.io/client-go\<close>, which is not
  among the sources: a policy of four steps, from ten milliseconds on, five times longer
  each time.
\<close>

definition modelLibrary :: "Store Library" where
  "modelLibrary =
     \<lparr>SetSummary = modelSetSummary, NewHelper = modelNewHelper, Patch = modelPatch,
      DefaultBackoff = \<lparr>Duration = 10, Factor = 5, Steps = 4\<rparr>\<rparr>"

subsection \<open>Example values\<close>

definition machineAt :: "string \<Rightarrow> Time \<Rightarrow> IonosCloudMachine" where
  "machineAt n t =
     \<lparr>Name = n, Namespace = ''default'', CreationTimestamp = t,
      Spec = \<lparr>ProviderID = None, DatacenterID = ''dc''\<rparr>,
      Status = \<lparr>FailureReason = None, FailureMessage = None, Conditions = []\<rparr>\<rparr>"

definition clientOf :: "Secret list \<Rightarrow> Client" where
  "clientOf secrets =
     \<lparr>Get = (\<lambda>key.
        case filter (\<lambda>s. SecretNamespace s = KeyNamespace key \<and> SecretName s = KeyName key)
               secrets of
          [] \<Rightarrow> Inl (StatusError ''NotFound'')
        | s # _ \<Rightarrow> Inr s)\<rparr>"

definition paramsOf :: "IonosCloudMachine \<Rightarrow> IonosCloudMachine list \<Rightarrow> MachineParams" where
  "paramsOf own machines =
     \<lparr>Client = Some (clientOf []),
      Machine = Some \<lparr>DataSecretName = None\<rparr>,
      ClusterScope = Some \<lparr>ListMachinesOf = (\<lambda>labels. Inr machines)\<rparr>,
      IonosMachine = Some own\<rparr>"

definition scopeOf :: "IonosCloudMachine \<Rightarrow> IonosCloudMachine list \<Rightarrow> Machine" where
  "scopeOf own machines =
     \<lparr>client = clientOf [],
      patchHelper = \<lparr>before = own\<rparr>,
      Machine = \<lparr>DataSecretName = None\<rparr>,
      IonosMachine = own,
      ClusterScope = \<lparr>ListMachinesOf = (\<lambda>labels. Inr machines)\<rparr>\<rparr>"

definition storeOf :: "IonosCloudMachine \<Rightarrow> error option list \<Rightarrow> Store" where
  "storeOf obj as = \<lparr>stored = obj, answers = as, requests = []\<rparr>"

definition conflict :: error where
  "conflict = StatusError ''Conflict''"

definition bootSecret :: Secret where
  "bootSecret = \<lparr>SecretName = ''boot'', SecretNamespace = ''default'', Data = ''cloud-init''\<rparr>"

text \<open>A scope built on a machine, whose provider ID was set afterwards, and its diff.\<close>

definition exampleScope :: Machine where
  "exampleScope = SetProviderID (scopeOf (machineAt ''m1'' 0) []) ''abc''"

definition exampleDiff :: Diff where
  "exampleDiff =
     \<lparr>specPatch = Some \<lparr>ProviderID = Some ''ionos://abc'', DatacenterID = ''dc''\<rparr>,
      statusPatch = None\<rparr>"



text \<open>A library whose patch helper cannot be made for the object.\<close>

definition failingLibrary :: "Store Library" where
  "failingLibrary =
     modelLibrary\<lparr>NewHelper := (\<lambda>obj c. Inl (New ''no kind is registered for the type''))\<rparr>"

section \<open>Properties\<close>

subsection \<open>Latest sibling\<close>

lemma scan_append: "scan own c (xs @ ys) = scan own (scan own c xs) ys"
  by (induction xs arbitrary: c) simp_all

lemma scan_skip:
  "\<forall>x \<in> set xs. Name x = own \<or> CreationTimestamp x < CreationTimestamp c \<Longrightarrow> scan own c xs = c"
  by (induction xs) (auto simp: Before_def)

lemma scan_bound:
  "CreationTimestamp c \<le> M \<Longrightarrow> \<forall>x \<in> set xs. CreationTimestamp x \<le> M
     \<Longrightarrow> CreationTimestamp (scan own c xs) \<le> M"
  by (induction xs arbitrary: c) simp_all

text \<open>
  C2, as amended: when the list holds the scope's own record and one other machine, and
  the other machine was created strictly later than the own record, \<^verbatim>\<open>FindLatestMachine\<close>
  returns the other machine, in whichever order the list presents the two.
\<close>

theorem FindLatestMachine_later_sibling:
  assumes own: "Name own = Name (IonosMachine m)"
    and other: "Name other \<noteq> Name (IonosMachine m)"
    and later: "CreationTimestamp own < CreationTimestamp other"
    and list: "ListMachinesOf (ClusterScope m) matchLabels = Inr machines"
    and two: "machines = [own, other] \<or> machines = [other, own]"
  shows "FindLatestMachine m matchLabels = Inr (Some other)"
  using assms by (auto simp: FindLatestMachine_def Before_def)

theorem FindLatestMachine_later_sibling_witness:
  "FindLatestMachine (scopeOf (machineAt ''m1'' 0) [machineAt ''m1'' 0, machineAt ''m2'' 1]) []
     = Inr (Some (machineAt ''m2'' 1))
   \<and> FindLatestMachine (scopeOf (machineAt ''m1'' 0) [machineAt ''m2'' 1, machineAt ''m1'' 0]) []
     = Inr (Some (machineAt ''m2'' 1))"
  using FindLatestMachine_later_sibling
      [of "machineAt ''m1'' 0" "scopeOf (machineAt ''m1'' 0) [machineAt ''m1'' 0, machineAt ''m2'' 1]"
          "machineAt ''m2'' 1" "[]" "[machineAt ''m1'' 0, machineAt ''m2'' 1]"]
    FindLatestMachine_later_sibling
      [of "machineAt ''m1'' 0" "scopeOf (machineAt ''m1'' 0) [machineAt ''m2'' 1, machineAt ''m1'' 0]"
          "machineAt ''m2'' 1" "[]" "[machineAt ''m2'' 1, machineAt ''m1'' 0]"]
  by (simp add: scopeOf_def machineAt_def)

text \<open>
  C2 as stated fails when the strictly later machine is the scope's own record: own
  record m1 created at 1, sibling m2 created at 0. The later machine m1 is not returned:
  the result is nil for the list m1, m2 and the older m2 for the list m2, m1.
\<close>

theorem FindLatestMachine_own_later_counterexample:
  "CreationTimestamp (machineAt ''m2'' 0) < CreationTimestamp (machineAt ''m1'' 1)
   \<and> FindLatestMachine (scopeOf (machineAt ''m1'' 1) [machineAt ''m1'' 1, machineAt ''m2'' 0]) []
       = Inr None
   \<and> FindLatestMachine (scopeOf (machineAt ''m1'' 1) [machineAt ''m2'' 0, machineAt ''m1'' 1]) []
       = Inr (Some (machineAt ''m2'' 0))"
  by (simp add: scopeOf_def machineAt_def FindLatestMachine_def Before_def)

text \<open>
  C3: \<^verbatim>\<open>FindLatestMachine\<close> never returns a machine that has the name of the scope's own
  record; and when the candidate left by the scan has that name, the result is nil with
  no error.
\<close>

theorem FindLatestMachine_never_own:
  "(FindLatestMachine m matchLabels = Inr (Some x) \<longrightarrow> Name x \<noteq> Name (IonosMachine m))
   \<and> (ListMachinesOf (ClusterScope m) matchLabels = Inr machines
        \<and> Name (scan (Name (IonosMachine m)) (machines ! 0) machines) = Name (IonosMachine m)
      \<longrightarrow> FindLatestMachine m matchLabels = Inr None)"
  by (auto simp: FindLatestMachine_def Let_def split: sum.splits if_splits)

theorem FindLatestMachine_never_own_witness:
  "FindLatestMachine (scopeOf (machineAt ''m1'' 0) [machineAt ''m1'' 0, machineAt ''m2'' 1]) []
     = Inr (Some (machineAt ''m2'' 1))
   \<and> Name (machineAt ''m2'' 1)
       \<noteq> Name (IonosMachine
                 (scopeOf (machineAt ''m1'' 0) [machineAt ''m1'' 0, machineAt ''m2'' 1]))
   \<and> Name (scan ''m1'' (machineAt ''m1'' 5) [machineAt ''m1'' 5, machineAt ''m2'' 1]) = ''m1''
   \<and> FindLatestMachine (scopeOf (machineAt ''m1'' 5) [machineAt ''m1'' 5, machineAt ''m2'' 1]) []
     = Inr None"
  using FindLatestMachine_never_own
      [of "scopeOf (machineAt ''m1'' 0) [machineAt ''m1'' 0, machineAt ''m2'' 1]" "[]"
          "machineAt ''m2'' 1" "[machineAt ''m1'' 0, machineAt ''m2'' 1]"]
    FindLatestMachine_never_own
      [of "scopeOf (machineAt ''m1'' 5) [machineAt ''m1'' 5, machineAt ''m2'' 1]" "[]"
          "machineAt ''m2'' 1" "[machineAt ''m1'' 5, machineAt ''m2'' 1]"]
  by (simp add: scopeOf_def machineAt_def FindLatestMachine_def Before_def)

text \<open>
  C8: when the greatest creation timestamp of the list is attained by more than one
  machine other than the scope's own (positions \<open>i < j\<close>, with \<open>j\<close> the last such
  position), \<^verbatim>\<open>FindLatestMachine\<close> returns the one met last in the list's order.
\<close>

theorem FindLatestMachine_last_wins:
  assumes list: "ListMachinesOf (ClusterScope m) matchLabels = Inr machines"
    and ij: "i < j" "j < length machines"
    and other_i: "Name (machines ! i) \<noteq> Name (IonosMachine m)"
    and other_j: "Name (machines ! j) \<noteq> Name (IonosMachine m)"
    and tie: "CreationTimestamp (machines ! i) = CreationTimestamp (machines ! j)"
    and maximal: "\<forall>k < length machines.
        CreationTimestamp (machines ! k) \<le> CreationTimestamp (machines ! j)"
    and last: "\<forall>k < length machines. j < k \<longrightarrow>
        Name (machines ! k) = Name (IonosMachine m)
        \<or> CreationTimestamp (machines ! k) \<noteq> CreationTimestamp (machines ! j)"
  shows "FindLatestMachine m matchLabels = Inr (Some (machines ! j))"
proof -
  let ?own = "Name (IonosMachine m)"
  let ?M = "CreationTimestamp (machines ! j)"
  let ?pre = "take j machines"
  let ?post = "drop (Suc j) machines"
  have split: "machines = ?pre @ machines ! j # ?post"
    using ij by (simp add: id_take_nth_drop)
  have all_le: "\<forall>x \<in> set machines. CreationTimestamp x \<le> ?M"
    using maximal by (auto simp: in_set_conv_nth)
  have first_le: "CreationTimestamp (machines ! 0) \<le> ?M"
  proof -
    have "0 < length machines" using ij by auto
    with maximal show ?thesis by blast
  qed
  have "\<forall>x \<in> set ?pre. CreationTimestamp x \<le> ?M"
    using all_le by (meson in_set_takeD)
  then have pre: "CreationTimestamp (scan ?own (machines ! 0) ?pre) \<le> ?M"
    using first_le by (rule scan_bound[rotated])
  have post: "\<forall>x \<in> set ?post. Name x = ?own \<or> CreationTimestamp x < ?M"
  proof
    fix x assume "x \<in> set ?post"
    then obtain k where k: "k < length ?post" "x = ?post ! k"
      by (auto simp: in_set_conv_nth)
    then have kk: "Suc j + k < length machines" "x = machines ! (Suc j + k)"
      by auto
    with last have "Name x = ?own \<or> CreationTimestamp x \<noteq> ?M" by auto
    moreover have "CreationTimestamp x \<le> ?M" using maximal kk by auto
    ultimately show "Name x = ?own \<or> CreationTimestamp x < ?M" by auto
  qed
  have "scan ?own (machines ! 0) machines
        = scan ?own (scan ?own (scan ?own (machines ! 0) ?pre) [machines ! j]) ?post"
    by (subst split) (simp add: scan_append)
  also have "scan ?own (scan ?own (machines ! 0) ?pre) [machines ! j] = machines ! j"
    using pre other_j by (simp add: Before_def)
  also have "scan ?own (machines ! j) ?post = machines ! j"
    using post by (rule scan_skip)
  finally have "scan ?own (machines ! 0) machines = machines ! j" .
  then show ?thesis
    using list ij other_j by (simp add: FindLatestMachine_def)
qed

theorem FindLatestMachine_last_wins_witness:
  "FindLatestMachine
     (scopeOf (machineAt ''m1'' 0)
        [machineAt ''m1'' 0, machineAt ''m2'' 5, machineAt ''m3'' 5, machineAt ''m4'' 2]) []
   = Inr (Some (machineAt ''m3'' 5))"
  using FindLatestMachine_last_wins
    [of "scopeOf (machineAt ''m1'' 0)
        [machineAt ''m1'' 0, machineAt ''m2'' 5, machineAt ''m3'' 5, machineAt ''m4'' 2]"
      "[]" "[machineAt ''m1'' 0, machineAt ''m2'' 5, machineAt ''m3'' 5, machineAt ''m4'' 2]" 1 2]
  by (simp add: scopeOf_def machineAt_def nth_Cons' less_Suc_eq numeral_eq_Suc)

text \<open>
  C10: the result depends on the order of the list also when all timestamps differ. When
  the scope's own record is strictly the latest of two machines, \<^verbatim>\<open>FindLatestMachine\<close>
  returns nil for the list that has the own record first, and the strictly older other
  machine for the list that has the own record last.
\<close>

theorem FindLatestMachine_order_dependent:
  assumes own: "Name own = Name (IonosMachine m)"
    and other: "Name other \<noteq> Name (IonosMachine m)"
    and later: "CreationTimestamp other < CreationTimestamp own"
    and first: "ListMachinesOf (ClusterScope m) matchLabels = Inr [own, other]"
    and last: "ListMachinesOf (ClusterScope m') matchLabels = Inr [other, own]"
    and same: "Name (IonosMachine m') = Name (IonosMachine m)"
  shows "FindLatestMachine m matchLabels = Inr None
         \<and> FindLatestMachine m' matchLabels = Inr (Some other)"
  using assms by (auto simp: FindLatestMachine_def Before_def)

theorem FindLatestMachine_order_dependent_witness:
  "FindLatestMachine (scopeOf (machineAt ''m1'' 2) [machineAt ''m1'' 2, machineAt ''m2'' 1]) []
     = Inr None
   \<and> FindLatestMachine (scopeOf (machineAt ''m1'' 2) [machineAt ''m2'' 1, machineAt ''m1'' 2]) []
     = Inr (Some (machineAt ''m2'' 1))"
  using FindLatestMachine_order_dependent
      [of "machineAt ''m1'' 2" "scopeOf (machineAt ''m1'' 2) [machineAt ''m1'' 2, machineAt ''m2'' 1]"
          "machineAt ''m2'' 1" "[]"
          "scopeOf (machineAt ''m1'' 2) [machineAt ''m2'' 1, machineAt ''m1'' 2]"]
  by (simp add: scopeOf_def machineAt_def)

subsection \<open>Failure check\<close>

text \<open>
  C7: \<^verbatim>\<open>HasFailed\<close> is true if and only if at least one of \<^verbatim>\<open>FailureReason\<close> and
  \<^verbatim>\<open>FailureMessage\<close> is set (not nil); it is false for a record with neither set. It is a
  function of the scope alone: it reads no store and changes nothing.
\<close>

theorem HasFailed_iff_failure_set:
  "HasFailed m =
     (FailureReason (Status (IonosMachine m)) \<noteq> None
      \<or> FailureMessage (Status (IonosMachine m)) \<noteq> None)"
  by (simp add: HasFailed_def Let_def)

theorem HasFailed_iff_failure_set_witness:
  "\<not> HasFailed (scopeOf (machineAt ''m1'' 0) [])
   \<and> HasFailed (scopeOf ((machineAt ''m1'' 0)\<lparr>Status :=
        \<lparr>FailureReason = Some ''CreateError'', FailureMessage = None, Conditions = []\<rparr>\<rparr>) [])
   \<and> HasFailed (scopeOf ((machineAt ''m1'' 0)\<lparr>Status :=
        \<lparr>FailureReason = None, FailureMessage = Some ''quota exceeded'', Conditions = []\<rparr>\<rparr>) [])"
  using HasFailed_iff_failure_set [of "scopeOf (machineAt ''m1'' 0) []"]
    HasFailed_iff_failure_set [of "scopeOf ((machineAt ''m1'' 0)\<lparr>Status :=
        \<lparr>FailureReason = Some ''CreateError'', FailureMessage = None, Conditions = []\<rparr>\<rparr>) []"]
    HasFailed_iff_failure_set [of "scopeOf ((machineAt ''m1'' 0)\<lparr>Status :=
        \<lparr>FailureReason = None, FailureMessage = Some ''quota exceeded'', Conditions = []\<rparr>\<rparr>) []"]
  by (simp add: scopeOf_def machineAt_def)

subsection \<open>Bootstrap data\<close>

text \<open>
  C6: \<^verbatim>\<open>GetBootstrapDataSecret\<close> fails with \<open>NoBootstrapData\<close> and makes no lookup exactly
  when the reference to the bootstrap data is empty (nil, or the empty name); otherwise
  it makes exactly one lookup, with the namespace of the \<^verbatim>\<open>IonosCloudMachine\<close> and the
  reference as the name, and returns what the store answers, secret or error, as it is.
\<close>

theorem GetBootstrapDataSecret_lookup:
  "(Deref (DataSecretName (Machine m)) '''' = '''' \<longrightarrow>
      GetBootstrapDataSecret m = (Inl NoBootstrapData, []))
   \<and> (Deref (DataSecretName (Machine m)) '''' \<noteq> '''' \<longrightarrow>
      GetBootstrapDataSecret m =
        (Get (client m)
           \<lparr>KeyNamespace = Namespace (IonosMachine m),
            KeyName = Deref (DataSecretName (Machine m)) ''''\<rparr>,
         [\<lparr>KeyNamespace = Namespace (IonosMachine m),
           KeyName = Deref (DataSecretName (Machine m)) ''''\<rparr>]))
   \<and> ((fst (GetBootstrapDataSecret m) = Inl NoBootstrapData
        \<and> snd (GetBootstrapDataSecret m) = [])
      = (DataSecretName (Machine m) = None \<or> DataSecretName (Machine m) = Some ''''))"
  by (auto simp: GetBootstrapDataSecret_def NoBootstrapData_def Deref_def Let_def
      split: option.splits sum.splits)

theorem GetBootstrapDataSecret_lookup_witness:
  "GetBootstrapDataSecret (scopeOf (machineAt ''m1'' 0) []) = (Inl NoBootstrapData, [])
   \<and> GetBootstrapDataSecret
        ((scopeOf (machineAt ''m1'' 0) [])
           \<lparr>client := clientOf [bootSecret], Machine := \<lparr>DataSecretName = Some ''boot''\<rparr>\<rparr>)
      = (Inr bootSecret, [\<lparr>KeyNamespace = ''default'', KeyName = ''boot''\<rparr>])
   \<and> GetBootstrapDataSecret
        ((scopeOf (machineAt ''m1'' 0) [])\<lparr>Machine := \<lparr>DataSecretName = Some ''boot''\<rparr>\<rparr>)
      = (Inl (StatusError ''NotFound''), [\<lparr>KeyNamespace = ''default'', KeyName = ''boot''\<rparr>])"
  using GetBootstrapDataSecret_lookup [of "scopeOf (machineAt ''m1'' 0) []"]
    GetBootstrapDataSecret_lookup
      [of "(scopeOf (machineAt ''m1'' 0) [])
           \<lparr>client := clientOf [bootSecret], Machine := \<lparr>DataSecretName = Some ''boot''\<rparr>\<rparr>"]
    GetBootstrapDataSecret_lookup
      [of "(scopeOf (machineAt ''m1'' 0) [])\<lparr>Machine := \<lparr>DataSecretName = Some ''boot''\<rparr>\<rparr>"]
  by (simp add: scopeOf_def machineAt_def clientOf_def bootSecret_def Deref_def)

subsection \<open>Construction\<close>

text \<open>
  C4, as amended: \<^verbatim>\<open>NewMachine\<close> fails with \<open>InvalidParams\<close> whenever one of the four
  inputs (client, Cluster API machine, IONOS Cloud machine, cluster scope) is nil. When
  all four are supplied it succeeds if the patch helper can be made, with a scope that
  holds the four inputs unchanged; if making the patch helper fails, it fails with that
  error wrapped, which is not \<open>InvalidParams\<close>.
\<close>

theorem NewMachine_result:
  "((MachineParams.Client params = None \<or> MachineParams.Machine params = None
      \<or> MachineParams.IonosMachine params = None \<or> MachineParams.ClusterScope params = None)
     \<longrightarrow> (\<exists>err. NewMachine lib params = Inl err \<and> InvalidParams err))
   \<and> (MachineParams.Client params = Some c \<and> MachineParams.Machine params = Some capiMachine
       \<and> MachineParams.IonosMachine params = Some ionosMachine
       \<and> MachineParams.ClusterScope params = Some clusterScope
     \<longrightarrow> (case NewHelper lib ionosMachine c of
           Inr helper \<Rightarrow>
             NewMachine lib params =
               Inr \<lparr>client = c, patchHelper = helper, Machine = capiMachine,
                    IonosMachine = ionosMachine, ClusterScope = clusterScope\<rparr>
         | Inl err \<Rightarrow>
             NewMachine lib params = Inl (Errorf ''failed to init patch helper: '' err)
             \<and> \<not> InvalidParams (Errorf ''failed to init patch helper: '' err)))"
  by (auto simp: NewMachine_def InvalidParams_def split: option.splits sum.splits)

theorem NewMachine_result_witness:
  "(\<exists>err. NewMachine modelLibrary
            ((paramsOf (machineAt ''m1'' 0) [])\<lparr>MachineParams.Client := None\<rparr>) = Inl err
       \<and> InvalidParams err)
   \<and> (\<exists>err. NewMachine modelLibrary
            ((paramsOf (machineAt ''m1'' 0) [])\<lparr>MachineParams.Machine := None\<rparr>) = Inl err
       \<and> InvalidParams err)
   \<and> (\<exists>err. NewMachine modelLibrary
            ((paramsOf (machineAt ''m1'' 0) [])\<lparr>MachineParams.IonosMachine := None\<rparr>) = Inl err
       \<and> InvalidParams err)
   \<and> (\<exists>err. NewMachine modelLibrary
            ((paramsOf (machineAt ''m1'' 0) [])\<lparr>MachineParams.ClusterScope := None\<rparr>) = Inl err
       \<and> InvalidParams err)
   \<and> NewMachine modelLibrary (paramsOf (machineAt ''m1'' 0) [])
       = Inr (scopeOf (machineAt ''m1'' 0) [])
   \<and> NewMachine failingLibrary (paramsOf (machineAt ''m1'' 0) [])
       = Inl (Errorf ''failed to init patch helper: ''
               (New ''no kind is registered for the type''))"
  using NewMachine_result
      [where params = "(paramsOf (machineAt ''m1'' 0) [])\<lparr>MachineParams.Client := None\<rparr>"
         and lib = modelLibrary]
    NewMachine_result
      [where params = "(paramsOf (machineAt ''m1'' 0) [])\<lparr>MachineParams.Machine := None\<rparr>"
         and lib = modelLibrary]
    NewMachine_result
      [where params = "(paramsOf (machineAt ''m1'' 0) [])\<lparr>MachineParams.IonosMachine := None\<rparr>"
         and lib = modelLibrary]
    NewMachine_result
      [where params = "(paramsOf (machineAt ''m1'' 0) [])\<lparr>MachineParams.ClusterScope := None\<rparr>"
         and lib = modelLibrary]
    NewMachine_result
      [where params = "paramsOf (machineAt ''m1'' 0) []" and lib = modelLibrary
         and c = "clientOf []" and capiMachine = "\<lparr>DataSecretName = None\<rparr>"
         and ionosMachine = "machineAt ''m1'' 0"
         and clusterScope = "\<lparr>ListMachinesOf = (\<lambda>labels. Inr [])\<rparr>"]
    NewMachine_result
      [where params = "paramsOf (machineAt ''m1'' 0) []" and lib = failingLibrary
         and c = "clientOf []" and capiMachine = "\<lparr>DataSecretName = None\<rparr>"
         and ionosMachine = "machineAt ''m1'' 0"
         and clusterScope = "\<lparr>ListMachinesOf = (\<lambda>labels. Inr [])\<rparr>"]
  by (simp add: paramsOf_def scopeOf_def modelLibrary_def modelNewHelper_def failingLibrary_def)

text \<open>
  C4 as stated fails: with all four inputs supplied, and a library whose patch helper
  cannot be made for the object, \<^verbatim>\<open>NewMachine\<close> does not succeed.
\<close>

theorem NewMachine_helper_failure_counterexample:
  "MachineParams.Client (paramsOf (machineAt ''m1'' 0) []) \<noteq> None
   \<and> MachineParams.Machine (paramsOf (machineAt ''m1'' 0) []) \<noteq> None
   \<and> MachineParams.IonosMachine (paramsOf (machineAt ''m1'' 0) []) \<noteq> None
   \<and> MachineParams.ClusterScope (paramsOf (machineAt ''m1'' 0) []) \<noteq> None
   \<and> NewMachine failingLibrary (paramsOf (machineAt ''m1'' 0) [])
       = Inl (Errorf ''failed to init patch helper: ''
               (New ''no kind is registered for the type''))"
  by (simp add: NewMachine_def failingLibrary_def paramsOf_def)

subsection \<open>Commit\<close>

lemma filter_replace_Ready:
  "Type c = ReadyCondition \<Longrightarrow>
   filter (\<lambda>x. Type x \<noteq> ReadyCondition \<and> P x)
     (map (\<lambda>x. if Type x = ReadyCondition then c else x) conds)
   = filter (\<lambda>x. Type x \<noteq> ReadyCondition \<and> P x) conds"
  by (induction conds) simp_all

lemma filter_setCondition:
  "Type c = ReadyCondition \<Longrightarrow>
   filter (\<lambda>x. Type x \<noteq> ReadyCondition \<and> P x) (setCondition c conds)
   = filter (\<lambda>x. Type x \<noteq> ReadyCondition \<and> P x) conds"
  unfolding setCondition_def by (simp add: filter_replace_Ready)

lemma summaryOf_setCondition:
  "Type c = ReadyCondition \<Longrightarrow> summaryOf types (setCondition c conds) = summaryOf types conds"
  unfolding summaryOf_def by (simp only: filter_setCondition)

lemma replace_twice:
  "map (\<lambda>x. if Type x = Type c then c else x) (map (\<lambda>x. if Type x = Type c then c else x) conds)
   = map (\<lambda>x. if Type x = Type c then c else x) conds"
  by (induction conds) simp_all

lemma list_ex_replace:
  "list_ex (\<lambda>x. Type x = Type c) (map (\<lambda>x. if Type x = Type c then c else x) conds)
   = list_ex (\<lambda>x. Type x = Type c) conds"
  by (induction conds) simp_all

lemma replace_absent:
  "\<not> list_ex (\<lambda>x. Type x = Type c) conds \<Longrightarrow>
   map (\<lambda>x. if Type x = Type c then c else x) conds = conds"
  by (induction conds) simp_all

lemma setCondition_twice: "setCondition c (setCondition c conds) = setCondition c conds"
  unfolding setCondition_def by (simp add: replace_twice list_ex_replace replace_absent)

lemma summaryOf_Type: "summaryOf types conds = Some c \<Longrightarrow> Type c = ReadyCondition"
  unfolding summaryOf_def Let_def by (auto split: if_splits)

lemma modelSetSummary_twice:
  "modelSetSummary types (modelSetSummary types obj) = modelSetSummary types obj"
proof (cases "summaryOf types (Conditions (Status obj))")
  case None
  then show ?thesis by (simp add: modelSetSummary_def)
next
  case (Some c)
  then have "Type c = ReadyCondition" by (rule summaryOf_Type)
  then show ?thesis
    using Some by (simp add: modelSetSummary_def summaryOf_setCondition setCondition_twice)
qed

lemma applyDiff_twice: "applyDiff d (applyDiff d obj) = applyDiff d obj"
  by (simp add: applyDiff_def split: option.splits)

lemma PatchObject_model:
  "PatchObject modelLibrary (m, st) =
     (fst (modelPatch (patchHelper m) (modelSetSummary summaryConditions (IonosMachine m))
             ownedConditions st),
      m\<lparr>IonosMachine := modelSetSummary summaryConditions (IonosMachine m)\<rparr>,
      snd (modelPatch (patchHelper m) (modelSetSummary summaryConditions (IonosMachine m))
             ownedConditions st))"
  by (simp add: PatchObject_def modelLibrary_def Let_def split: prod.splits)


lemma modelPatch_requests:
  "requests (snd (modelPatch h obj owned st))
   = requests st @ (if emptyDiff (diff (before h) obj) then [] else [diff (before h) obj])"
  by (simp add: modelPatch_def Let_def split: list.splits option.splits)

lemma modelPatch_stored:
  "stored (snd (modelPatch h obj owned st))
   = (if emptyDiff (diff (before h) obj) \<or> fst (modelPatch h obj owned st) \<noteq> None
      then stored st else applyDiff (diff (before h) obj) (stored st))"
  by (simp add: modelPatch_def Let_def split: list.splits option.splits)

lemma PatchObject_model_again:
  "PatchObject modelLibrary
     (m\<lparr>IonosMachine := modelSetSummary summaryConditions (IonosMachine m)\<rparr>, st) =
     (fst (modelPatch (patchHelper m) (modelSetSummary summaryConditions (IonosMachine m))
             ownedConditions st),
      m\<lparr>IonosMachine := modelSetSummary summaryConditions (IonosMachine m)\<rparr>,
      snd (modelPatch (patchHelper m) (modelSetSummary summaryConditions (IonosMachine m))
             ownedConditions st))"
  by (simp add: PatchObject_model modelSetSummary_twice)

lemma PatchObject_exampleScope:
  "PatchObject modelLibrary (exampleScope, st) =
     (case answers st of
        Some err # rest \<Rightarrow>
          (Some err, exampleScope,
           st\<lparr>answers := rest, requests := requests st @ [exampleDiff]\<rparr>)
      | None # rest \<Rightarrow>
          (None, exampleScope,
           st\<lparr>stored := applyDiff exampleDiff (stored st), answers := rest,
              requests := requests st @ [exampleDiff]\<rparr>)
      | [] \<Rightarrow>
          (None, exampleScope,
           st\<lparr>stored := applyDiff exampleDiff (stored st),
              requests := requests st @ [exampleDiff]\<rparr>))"
  by (simp add: PatchObject_def modelLibrary_def modelSetSummary_def summaryOf_def
      modelPatch_def diff_def emptyDiff_def exampleScope_def exampleDiff_def SetProviderID_def
      scopeOf_def machineAt_def summaryConditions_def Let_def
      split: list.splits option.splits)










text \<open>
  C9, as amended: two calls of \<^verbatim>\<open>PatchObject\<close> in succession, with no change of the
  record in between, compute the same diff both times, against the snapshot taken when
  the scope was constructed, which a commit does not renew: the second diff is empty
  only if the first was. The second call leaves the record of the scope as it is, and
  when the store accepted the first commit (or the diff is empty) the second one leaves
  the stored object as the first left it.
\<close>

theorem PatchObject_twice_same_diff:
  "(let first = PatchObject modelLibrary (m, st);
        second = PatchObject modelLibrary (snd first);
        d = diff (before (patchHelper m)) (modelSetSummary summaryConditions (IonosMachine m))
    in IonosMachine (fst (snd second)) = IonosMachine (fst (snd first))
       \<and> requests (snd (snd first)) = requests st @ (if emptyDiff d then [] else [d])
       \<and> requests (snd (snd second)) = requests st @ (if emptyDiff d then [] else [d, d])
       \<and> (emptyDiff d \<or> fst first = None
            \<longrightarrow> stored (snd (snd second)) = stored (snd (snd first))))"
proof -
  let ?obj = "modelSetSummary summaryConditions (IonosMachine m)"
  let ?h = "patchHelper m"
  let ?d = "diff (before ?h) ?obj"
  let ?p1 = "modelPatch ?h ?obj ownedConditions st"
  let ?p2 = "modelPatch ?h ?obj ownedConditions (snd ?p1)"
  let ?m' = "m\<lparr>IonosMachine := ?obj\<rparr>"
  have first: "PatchObject modelLibrary (m, st) = (fst ?p1, ?m', snd ?p1)"
    by (rule PatchObject_model)
  have second: "PatchObject modelLibrary (?m', snd ?p1) = (fst ?p2, ?m', snd ?p2)"
    by (rule PatchObject_model_again)
  have r1: "requests (snd ?p1) = requests st @ (if emptyDiff ?d then [] else [?d])"
    by (rule modelPatch_requests)
  have r2: "requests (snd ?p2) = requests st @ (if emptyDiff ?d then [] else [?d, ?d])"
    by (simp add: modelPatch_requests)
  have st: "emptyDiff ?d \<or> fst ?p1 = None \<longrightarrow> stored (snd ?p2) = stored (snd ?p1)"
    by (simp add: modelPatch_stored [of ?h ?obj ownedConditions "snd ?p1"]
        modelPatch_stored [of ?h ?obj ownedConditions st] applyDiff_twice)
  show ?thesis
    unfolding Let_def first snd_conv second fst_conv
    using r1 r2 st by simp
qed

theorem PatchObject_twice_same_diff_witness:
  "fst (PatchObject modelLibrary (exampleScope, storeOf (machineAt ''m1'' 0) [])) = None
   \<and> diff (before (patchHelper exampleScope))
        (modelSetSummary summaryConditions (IonosMachine exampleScope)) = exampleDiff
   \<and> requests (snd (snd (PatchObject modelLibrary
        (exampleScope, storeOf (machineAt ''m1'' 0) [])))) = [exampleDiff]
   \<and> requests (snd (snd (PatchObject modelLibrary (snd (PatchObject modelLibrary
        (exampleScope, storeOf (machineAt ''m1'' 0) []))))))
       = [exampleDiff, exampleDiff]
   \<and> stored (snd (snd (PatchObject modelLibrary (snd (PatchObject modelLibrary
        (exampleScope, storeOf (machineAt ''m1'' 0) []))))))
       = stored (snd (snd (PatchObject modelLibrary
           (exampleScope, storeOf (machineAt ''m1'' 0) []))))"
proof -
  have d: "diff (before (patchHelper exampleScope))
        (modelSetSummary summaryConditions (IonosMachine exampleScope)) = exampleDiff"
    by (simp add: diff_def modelSetSummary_def summaryOf_def exampleScope_def exampleDiff_def
        SetProviderID_def scopeOf_def machineAt_def summaryConditions_def)
  have ok: "fst (PatchObject modelLibrary (exampleScope, storeOf (machineAt ''m1'' 0) [])) = None"
    by (simp add: PatchObject_exampleScope storeOf_def)
  have ne: "\<not> emptyDiff exampleDiff"
    by (simp add: emptyDiff_def exampleDiff_def)
  show ?thesis
    using PatchObject_twice_same_diff [of exampleScope "storeOf (machineAt ''m1'' 0) []"]
    unfolding Let_def d using ok ne d by (simp add: storeOf_def)
qed

text \<open>
  C9 as stated fails. A scope whose provider ID was set after construction: the second
  of two calls in succession sends the same diff as the first, which is not empty. And
  when the store rejects the first commit with a conflict, the second call changes the
  stored object.
\<close>

theorem PatchObject_twice_counterexample:
  "\<not> emptyDiff exampleDiff
   \<and> requests (snd (snd (PatchObject modelLibrary (snd (PatchObject modelLibrary
        (exampleScope, storeOf (machineAt ''m1'' 0) []))))))
       = [exampleDiff, exampleDiff]
   \<and> fst (PatchObject modelLibrary (exampleScope, storeOf (machineAt ''m1'' 0) [Some conflict]))
       = Some conflict
   \<and> stored (snd (snd (PatchObject modelLibrary
        (exampleScope, storeOf (machineAt ''m1'' 0) [Some conflict]))))
       = machineAt ''m1'' 0
   \<and> stored (snd (snd (PatchObject modelLibrary (snd (PatchObject modelLibrary
        (exampleScope, storeOf (machineAt ''m1'' 0) [Some conflict]))))))
       = (machineAt ''m1'' 0)\<lparr>Spec := \<lparr>ProviderID = Some ''ionos://abc'', DatacenterID = ''dc''\<rparr>\<rparr>
   \<and> (machineAt ''m1'' 0)\<lparr>Spec := \<lparr>ProviderID = Some ''ionos://abc'', DatacenterID = ''dc''\<rparr>\<rparr>
       \<noteq> machineAt ''m1'' 0"
  by (simp add: PatchObject_exampleScope storeOf_def emptyDiff_def exampleDiff_def
      applyDiff_def machineAt_def)


subsection \<open>Finalize\<close>

lemma delays_Suc:
  "map (\<lambda>i. (d::nat) * f ^ i) [0..<Suc k] = d # map (\<lambda>i. (d * f) * f ^ i) [0..<k]"
proof -
  have "[0..<Suc k] = 0 # map Suc [0..<k]"
    by (simp add: upt_conv_Cons map_Suc_upt del: upt_Suc)
  then show ?thesis by (simp add: mult.assoc del: upt_Suc)
qed

lemma attempts_success:
  assumes "k < n"
    and "\<forall>i<k. outcome fn s i \<noteq> None"
    and "outcome fn s k = None"
  shows "attempts n d f shouldRetry fn lastErr s slept
         = (None, afterCalls fn s (Suc k), slept @ map (\<lambda>i. d * f ^ i) [0..<k])"
  using assms
proof (induction n arbitrary: k s d lastErr slept)
  case 0
  then show ?case by simp
next
  case (Suc n)
  show ?case
  proof (cases k)
    case 0
    with Suc.prems(3) have "fst (fn s) = None" by (simp add: outcome_def)
    then show ?thesis using 0 by (cases "fn s") simp
  next
    case (Suc k')
    from Suc.prems(2) Suc have "outcome fn s 0 \<noteq> None" by blast
    then obtain err where err: "fst (fn s) = Some err" by (auto simp: outcome_def)
    have k': "k' < n" using Suc.prems(1) Suc by simp
    have later: "\<forall>i<k'. outcome fn (snd (fn s)) i \<noteq> None"
    proof (intro allI impI)
      fix i assume "i < k'"
      then have "Suc i < k" using Suc by simp
      with Suc.prems(2) have "outcome fn s (Suc i) \<noteq> None" by blast
      then show "outcome fn (snd (fn s)) i \<noteq> None" by (simp add: outcome_def)
    qed
    have stop: "outcome fn (snd (fn s)) k' = None"
      using Suc.prems(3) Suc by (simp add: outcome_def)
    have n0: "n \<noteq> 0" using k' by simp
    have "attempts (Suc n) d f shouldRetry fn lastErr s slept
          = attempts n (d * f) f shouldRetry fn (Some err) (snd (fn s)) (slept @ [d])"
      using err n0 by (cases "fn s") (simp add: shouldRetry_def)
    also have "\<dots> = (None, afterCalls fn (snd (fn s)) (Suc k'),
                     (slept @ [d]) @ map (\<lambda>i. (d * f) * f ^ i) [0..<k'])"
      using Suc.IH [OF k' later stop] .
    finally show ?thesis using Suc by (simp add: delays_Suc del: upt_Suc)
  qed
qed

lemma attempts_exhausted:
  assumes "0 < n"
    and "\<forall>i<n. outcome fn s i \<noteq> None"
  shows "attempts n d f shouldRetry fn lastErr s slept
         = (outcome fn s (n - 1), afterCalls fn s n, slept @ map (\<lambda>i. d * f ^ i) [0..<n - 1])"
  using assms
proof (induction n arbitrary: s d lastErr slept)
  case 0
  then show ?case by simp
next
  case (Suc n)
  from Suc.prems(2) have "outcome fn s 0 \<noteq> None" by blast
  then obtain err where err: "fst (fn s) = Some err" by (auto simp: outcome_def)
  show ?case
  proof (cases "n = 0")
    case True
    then show ?thesis using err by (cases "fn s") (simp add: shouldRetry_def outcome_def)
  next
    case False
    then obtain n' where n': "n = Suc n'" by (cases n) auto
    have later: "\<forall>i<n. outcome fn (snd (fn s)) i \<noteq> None"
    proof (intro allI impI)
      fix i assume "i < n"
      then have "Suc i < Suc n" by simp
      with Suc.prems(2) have "outcome fn s (Suc i) \<noteq> None" by blast
      then show "outcome fn (snd (fn s)) i \<noteq> None" by (simp add: outcome_def)
    qed
    have pos: "0 < n" using False by simp
    have "attempts (Suc n) d f shouldRetry fn lastErr s slept
          = attempts n (d * f) f shouldRetry fn (Some err) (snd (fn s)) (slept @ [d])"
      using err False by (cases "fn s") (simp add: shouldRetry_def)
    also have "\<dots> = (outcome fn (snd (fn s)) (n - 1), afterCalls fn (snd (fn s)) n,
                     (slept @ [d]) @ map (\<lambda>i. (d * f) * f ^ i) [0..<n - 1])"
      using Suc.IH [OF pos later] .
    finally show ?thesis using n' by (simp add: delays_Suc outcome_def del: upt_Suc)
  qed
qed

lemma afterCalls_numeral:
  "afterCalls fn s (numeral k) = afterCalls fn (snd (fn s)) (pred_numeral k)"
  by (simp add: numeral_eq_Suc)

lemma delays_model:
  "delays (DefaultBackoff modelLibrary) 2 = [10, 50]"
  "delays (DefaultBackoff modelLibrary) 3 = [10, 50, 250]"
  by (simp_all add: delays_def modelLibrary_def upt_conv_Cons)

text \<open>
  C5: \<^verbatim>\<open>Finalize\<close> retries the commit on every error (the predicate accepts every
  error), sleeping a delay that grows by the policy's factor between attempts, for at
  most the policy's number of steps. It returns success as soon as one attempt succeeds:
  when attempt number \<open>k\<close> is the first to succeed, it stops after \<open>k + 1\<close> attempts
  and \<open>k\<close> delays. When every attempt of the policy fails, it returns the error of the
  last attempt.
\<close>

theorem Finalize_retries:
  "shouldRetry err
   \<and> (k < Steps (DefaultBackoff lib)
        \<and> (\<forall>i<k. outcome (PatchObject lib) s i \<noteq> None)
        \<and> outcome (PatchObject lib) s k = None
      \<longrightarrow> Finalize lib s
            = (None, afterCalls (PatchObject lib) s (Suc k), delays (DefaultBackoff lib) k))
   \<and> (0 < Steps (DefaultBackoff lib)
        \<and> (\<forall>i<Steps (DefaultBackoff lib). outcome (PatchObject lib) s i \<noteq> None)
      \<longrightarrow> Finalize lib s
            = (outcome (PatchObject lib) s (Steps (DefaultBackoff lib) - 1),
               afterCalls (PatchObject lib) s (Steps (DefaultBackoff lib)),
               delays (DefaultBackoff lib) (Steps (DefaultBackoff lib) - 1)))"
proof (intro conjI impI)
  show "shouldRetry err" by (simp add: shouldRetry_def)
next
  assume "k < Steps (DefaultBackoff lib)
        \<and> (\<forall>i<k. outcome (PatchObject lib) s i \<noteq> None)
        \<and> outcome (PatchObject lib) s k = None"
  then have "k < Steps (DefaultBackoff lib)"
    and "\<forall>i<k. outcome (PatchObject lib) s i \<noteq> None"
    and "outcome (PatchObject lib) s k = None"
    by simp_all
  then show "Finalize lib s
            = (None, afterCalls (PatchObject lib) s (Suc k), delays (DefaultBackoff lib) k)"
    unfolding Finalize_def OnError_def delays_def
    using attempts_success [where slept = "[]"] by simp
next
  assume "0 < Steps (DefaultBackoff lib)
        \<and> (\<forall>i<Steps (DefaultBackoff lib). outcome (PatchObject lib) s i \<noteq> None)"
  then have "0 < Steps (DefaultBackoff lib)"
    and "\<forall>i<Steps (DefaultBackoff lib). outcome (PatchObject lib) s i \<noteq> None"
    by simp_all
  then show "Finalize lib s
            = (outcome (PatchObject lib) s (Steps (DefaultBackoff lib) - 1),
               afterCalls (PatchObject lib) s (Steps (DefaultBackoff lib)),
               delays (DefaultBackoff lib) (Steps (DefaultBackoff lib) - 1))"
    unfolding Finalize_def OnError_def delays_def
    using attempts_exhausted [where slept = "[]"] by simp
qed

theorem Finalize_retries_witness:
  "shouldRetry conflict
   \<and> Finalize modelLibrary
        (exampleScope, storeOf (machineAt ''m1'' 0) [Some conflict, Some conflict])
      = (None,
         (exampleScope,
          \<lparr>stored = applyDiff exampleDiff (machineAt ''m1'' 0), answers = [],
           requests = [exampleDiff, exampleDiff, exampleDiff]\<rparr>),
         [10, 50])
   \<and> Finalize modelLibrary
        (exampleScope,
         storeOf (machineAt ''m1'' 0)
           [Some conflict, Some conflict, Some conflict, Some (StatusError ''Timeout'')])
      = (Some (StatusError ''Timeout''),
         (exampleScope,
          \<lparr>stored = machineAt ''m1'' 0, answers = [],
           requests = [exampleDiff, exampleDiff, exampleDiff, exampleDiff]\<rparr>),
         [10, 50, 250])"
proof -
  let ?sa = "(exampleScope, storeOf (machineAt ''m1'' 0) [Some conflict, Some conflict])"
  let ?sb = "(exampleScope,
              storeOf (machineAt ''m1'' 0)
                [Some conflict, Some conflict, Some conflict, Some (StatusError ''Timeout'')])"
  have steps: "Steps (DefaultBackoff modelLibrary) = 4"
    by (simp add: modelLibrary_def)
  have a: "2 < Steps (DefaultBackoff modelLibrary)
           \<and> (\<forall>i<2. outcome (PatchObject modelLibrary) ?sa i \<noteq> None)
           \<and> outcome (PatchObject modelLibrary) ?sa 2 = None"
    by (simp add: steps less_2_cases_iff outcome_def afterCalls_numeral
        PatchObject_exampleScope storeOf_def)
  have b: "0 < Steps (DefaultBackoff modelLibrary)
           \<and> (\<forall>i<Steps (DefaultBackoff modelLibrary).
                 outcome (PatchObject modelLibrary) ?sb i \<noteq> None)"
    unfolding steps
    by (simp add: less_Suc_eq numeral_eq_Suc outcome_def PatchObject_exampleScope storeOf_def)
  have "Finalize modelLibrary ?sa
        = (None, afterCalls (PatchObject modelLibrary) ?sa (Suc 2),
           delays (DefaultBackoff modelLibrary) 2)"
    using Finalize_retries [of conflict 2 modelLibrary ?sa] a by blast
  moreover have "Finalize modelLibrary ?sb
        = (outcome (PatchObject modelLibrary) ?sb (Steps (DefaultBackoff modelLibrary) - 1),
           afterCalls (PatchObject modelLibrary) ?sb (Steps (DefaultBackoff modelLibrary)),
           delays (DefaultBackoff modelLibrary) (Steps (DefaultBackoff modelLibrary) - 1))"
    using Finalize_retries [of conflict 0 modelLibrary ?sb] b by blast
  moreover have "shouldRetry conflict"
    using Finalize_retries [of conflict 0 modelLibrary ?sb] by blast
  ultimately show ?thesis
    by (simp add: steps delays_model outcome_def afterCalls_numeral
        PatchObject_exampleScope storeOf_def)
qed

end
